theory Spec2Isabelle
  imports Complex_Main
begin

section \<open>Convergence monitors of hmmlearn (monitors.py)\<close>

text \<open>
  The module defines an abstract class \<^verbatim>\<open>_BaseMonitor\<close> and three concrete classes that
  differ only in \<^verbatim>\<open>_check_convergence\<close>. Log probabilities are Python floats; they are
  modelled as reals, and the one float that is not a real number in the code, the
  \<^verbatim>\<open>float("nan")\<close> of the first progress line, is \<open>None\<close> of \<open>real option\<close>.
  Names that start with an underscore in the source lose it here.
\<close>

subsection \<open>Exceptions and returned values\<close>

datatype error = AttributeError | ZeroDivisionError

text \<open>
  \<^verbatim>\<open>converged\<close> returns whatever the expression \<^verbatim>\<open>a or b\<close> evaluates to, and for the
  threshold monitor \<^verbatim>\<open>self.history and ...\<close> can evaluate to the deque itself. The values
  a monitor can return are therefore booleans and deques.
\<close>

datatype pyval = PBool bool | PDeque "real list"

fun truthy :: "pyval \<Rightarrow> bool" where
  "truthy (PBool b) = b"
| "truthy (PDeque d) = (d \<noteq> [])"

subsection \<open>The monitor object\<close>

datatype monitor_class = ConvergenceMonitor | RelativeMonitor | ThresholdMonitor

text \<open>
  The attributes set by \<^verbatim>\<open>__init__\<close>, and the class of the object (\<open>cls\<close>), which decides
  the \<^verbatim>\<open>_check_convergence\<close> that is called.
\<close>

record monitor =
  cls :: monitor_class
  tol :: real
  n_iter :: int
  verbose :: bool
  history :: "real list"
  iter :: int

text \<open>
  \<^verbatim>\<open>deque(maxlen=2).append(x)\<close>: the element is added on the right and, when the deque
  is then longer than \<open>maxlen\<close>, one element is removed on the left.
\<close>

definition deque_append :: "nat \<Rightarrow> 'a list \<Rightarrow> 'a \<Rightarrow> 'a list" where
  "deque_append maxlen d x = (let d' = d @ [x] in if length d' > maxlen then tl d' else d')"

text \<open>Float division of Python: a zero divisor raises.\<close>

definition truediv :: "real \<Rightarrow> real \<Rightarrow> error + real" where
  "truediv a b = (if b = 0 then Inl ZeroDivisionError else Inr (a / b))"

text \<open>
  \<^verbatim>\<open>__init__\<close> assigns the five attributes and checks nothing; the result type has an error
  side only so that this can be stated.
\<close>

definition init :: "monitor_class \<Rightarrow> real \<Rightarrow> int \<Rightarrow> bool \<Rightarrow> error + monitor" where
  "init c tol0 n_iter0 verbose0 =
     Inr \<lparr>cls = c, tol = tol0, n_iter = n_iter0, verbose = verbose0, history = [], iter = 0\<rparr>"

definition reset :: "monitor \<Rightarrow> monitor" where
  "reset self = self\<lparr>iter := 0, history := []\<rparr>"

text \<open>
  A progress line before formatting: the iteration number, the log probability and the
  delta (\<open>None\<close> for NaN).
\<close>

type_synonym message = "int \<times> real \<times> real option"

text \<open>
  Line 76 reads \<^verbatim>\<open>self.histor[-1] if self.history else float("nan")\<close>. No attribute
  \<^verbatim>\<open>histor\<close> is ever set on the object or defined on its classes, so evaluating
  \<^verbatim>\<open>self.histor\<close> raises \<^verbatim>\<open>AttributeError\<close>; this happens exactly when the condition
  \<^verbatim>\<open>self.history\<close> is true, that is when the deque is not empty.
\<close>

definition histor :: "monitor \<Rightarrow> error + real list" where
  "histor self = Inl AttributeError"

definition prev_logprob :: "monitor \<Rightarrow> error + real option" where
  "prev_logprob self =
     (if history self \<noteq> []
      then (case histor self of Inl e \<Rightarrow> Inl e | Inr h \<Rightarrow> Inr (Some (last h)))
      else Inr None)"

text \<open>
  \<^verbatim>\<open>report\<close> returns the lines written to \<^verbatim>\<open>sys.stderr\<close> and the updated object, or the
  exception. The exception of the verbose branch is raised before any assignment, so the
  object is then as it was before the call.
\<close>

definition report :: "real \<Rightarrow> monitor \<Rightarrow> error + (message list \<times> monitor)" where
  "report logprob self =
     (case (if verbose self
            then (case prev_logprob self of
                    Inl e \<Rightarrow> Inl e
                  | Inr prev \<Rightarrow>
                      (let delta = map_option (\<lambda>p. logprob - p) prev;
                           message = (iter self + 1, logprob, delta)
                       in Inr [message]))
            else Inr [])
      of Inl e \<Rightarrow> Inl e
       | Inr out \<Rightarrow>
           Inr (out, self\<lparr>history := deque_append 2 (history self) logprob,
                          iter := iter self + 1\<rparr>))"

text \<open>The object after a call of \<^verbatim>\<open>report\<close>, whether the call returned or raised.\<close>

definition report_state :: "real \<Rightarrow> monitor \<Rightarrow> monitor" where
  "report_state logprob self =
     (case report logprob self of Inl e \<Rightarrow> self | Inr (out, self') \<Rightarrow> self')"

text \<open>
  A caller that reports the values of a list in order, one call each, and goes on after
  a call that raised.
\<close>

fun reports :: "real list \<Rightarrow> monitor \<Rightarrow> monitor" where
  "reports [] self = self"
| "reports (v # vs) self = reports vs (report_state v self)"

subsection \<open>The three convergence criteria\<close>

definition ConvergenceMonitor_check_convergence :: "monitor \<Rightarrow> error + pyval" where
  "ConvergenceMonitor_check_convergence self =
     (if length (history self) = 2
      then Inr (PBool (history self ! 1 - history self ! 0 < tol self))
      else Inr (PBool False))"

definition RelativeMonitor_check_convergence :: "monitor \<Rightarrow> error + pyval" where
  "RelativeMonitor_check_convergence self =
     (if length (history self) \<noteq> 2 then Inr (PBool False)
      else (let previous = history self ! 0; current = history self ! 1
            in case truediv (current - previous) previous of
                 Inl e \<Rightarrow> Inl e
               | Inr q \<Rightarrow> Inr (PBool (q < tol self))))"

definition ThresholdMonitor_check_convergence :: "monitor \<Rightarrow> error + pyval" where
  "ThresholdMonitor_check_convergence self =
     (if history self = [] then Inr (PDeque (history self))
      else Inr (PBool (last (history self) \<ge> tol self)))"

definition check_convergence :: "monitor \<Rightarrow> error + pyval" where
  "check_convergence self =
     (case cls self of
        ConvergenceMonitor \<Rightarrow> ConvergenceMonitor_check_convergence self
      | RelativeMonitor \<Rightarrow> RelativeMonitor_check_convergence self
      | ThresholdMonitor \<Rightarrow> ThresholdMonitor_check_convergence self)"

text \<open>
  \<^verbatim>\<open>self.iter == self.n_iter or self._check_convergence()\<close>: the right operand is
  evaluated, and returned as it is, only when the comparison is false.
\<close>

definition converged :: "monitor \<Rightarrow> error + pyval" where
  "converged self =
     (if iter self = n_iter self then Inr (PBool True) else check_convergence self)"

section \<open>Facts shared by the proofs\<close>

lemma length_deque_append: "length d \<le> 2 \<Longrightarrow> length (deque_append 2 d x) \<le> 2"
  by (auto simp: deque_append_def Let_def)

lemma deque_append_full: "deque_append 2 [a, b] x = [b, x]"
  by (simp add: deque_append_def)

lemma report_quiet:
  "\<not> verbose self \<Longrightarrow>
   report v self = Inr ([], self\<lparr>history := deque_append 2 (history self) v,
                                   iter := iter self + 1\<rparr>)"
  by (simp add: report_def)

lemma report_first:
  "history self = [] \<Longrightarrow>
   report v self = Inr (if verbose self then [(iter self + 1, v, None)] else [],
                        self\<lparr>history := deque_append 2 (history self) v,
                             iter := iter self + 1\<rparr>)"
  by (simp add: report_def prev_logprob_def)

lemma report_verbose_raises:
  "verbose self \<Longrightarrow> history self \<noteq> [] \<Longrightarrow> report v self = Inl AttributeError"
  by (simp add: report_def prev_logprob_def histor_def)

lemma report_history_bound:
  "length (history self) \<le> 2 \<Longrightarrow> length (history (report_state v self)) \<le> 2"
  by (cases "verbose self"; cases "history self = []")
     (simp_all add: report_state_def report_quiet report_first report_verbose_raises
                    length_deque_append)

lemma reports_history_bound:
  "length (history self) \<le> 2 \<Longrightarrow> length (history (reports vs self)) \<le> 2"
  by (induction vs arbitrary: self) (simp_all add: report_history_bound)

lemma report_returns_state:
  "report x self = Inr (out, self') \<Longrightarrow>
   self' = self\<lparr>history := deque_append 2 (history self) x, iter := iter self + 1\<rparr>"
  by (auto simp: report_def split: sum.splits if_splits)

text \<open>What holds on the path that does not print: every call counts.\<close>

lemma reports_keeps_verbose: "verbose (reports vs self) = verbose self"
proof (induction vs arbitrary: self)
  case Nil
  show ?case by simp
next
  case (Cons v vs)
  have "verbose (report_state v self) = verbose self"
    by (cases "verbose self"; cases "history self = []")
       (simp_all add: report_state_def report_quiet report_first report_verbose_raises)
  with Cons show ?case by simp
qed

lemma reports_quiet_iter:
  "\<not> verbose self \<Longrightarrow> iter (reports vs self) = iter self + int (length vs)"
proof (induction vs arbitrary: self)
  case Nil
  show ?case by simp
next
  case (Cons v vs)
  have step: "report_state v self =
      self\<lparr>history := deque_append 2 (history self) v, iter := iter self + 1\<rparr>"
    using Cons.prems by (simp add: report_state_def report_quiet)
  have "iter (reports vs (report_state v self)) = iter (report_state v self) + int (length vs)"
    by (rule Cons.IH) (simp add: step Cons.prems)
  then show ?case by (simp add: step)
qed

lemma converged_at_n_iter: "iter self = n_iter self \<Longrightarrow> converged self = Inr (PBool True)"
  by (simp add: converged_def)

lemma converged_off_n_iter:
  "iter self \<noteq> n_iter self \<Longrightarrow> converged self = check_convergence self"
  by (simp add: converged_def)

section \<open>The claims\<close>

text \<open>
  C1 (fails on the code, by the misspelt attribute of line 76): \<^verbatim>\<open>report\<close> should append the
  value and count the call whatever \<open>verbose\<close> is. A verbose monitor built by
  \<^verbatim>\<open>ConvergenceMonitor(0.1, 10, True)\<close> takes its first report, and its second report raises
  \<^verbatim>\<open>AttributeError\<close> and leaves history and counter as they were; the same call on the
  same state with \<open>verbose = False\<close> appends and counts.
\<close>

theorem C1_verbose_report_raises:
  "init ConvergenceMonitor (1/10) 10 True = Inr \<lparr>cls = ConvergenceMonitor, tol = 1/10, n_iter = 10, verbose = True, history = [], iter = 0\<rparr>
   \<and> report 1 \<lparr>cls = ConvergenceMonitor, tol = 1/10, n_iter = 10, verbose = True, history = [], iter = 0\<rparr> = Inr ([(1, 1, None)], \<lparr>cls = ConvergenceMonitor, tol = 1/10, n_iter = 10, verbose = True, history = [1], iter = 1\<rparr>)
   \<and> report 2 \<lparr>cls = ConvergenceMonitor, tol = 1/10, n_iter = 10, verbose = True, history = [1], iter = 1\<rparr> = Inl AttributeError
   \<and> report_state 2 \<lparr>cls = ConvergenceMonitor, tol = 1/10, n_iter = 10, verbose = True, history = [1], iter = 1\<rparr> = \<lparr>cls = ConvergenceMonitor, tol = 1/10, n_iter = 10, verbose = True, history = [1], iter = 1\<rparr>
   \<and> report 2 \<lparr>cls = ConvergenceMonitor, tol = 1/10, n_iter = 10, verbose = False, history = [1], iter = 1\<rparr> = Inr ([], \<lparr>cls = ConvergenceMonitor, tol = 1/10, n_iter = 10, verbose = False, history = [1, 2], iter = 2\<rparr>)"
  by (simp add: init_def report_state_def report_def prev_logprob_def histor_def
                deque_append_def)



text \<open>
  C3 (as stated it fails): a non-positive \<open>n_iter\<close> is not rejected by the constructor,
  which checks nothing. Here \<^verbatim>\<open>ConvergenceMonitor(0.1, -1, False)\<close> is built.
\<close>

theorem C3_nonpositive_n_iter_accepted:
  "init ConvergenceMonitor (1/10) (- 1) False = Inr \<lparr>cls = ConvergenceMonitor, tol = 1/10, n_iter = - 1, verbose = False, history = [], iter = 0\<rparr>"
  by (simp add: init_def)

text \<open>
  C3, amended: constructing a monitor with a non-positive \<open>n_iter\<close> succeeds, and the
  object holds the value as given, an empty history and the iteration count 0.
\<close>

theorem C3_init_keeps_nonpositive_n_iter:
  "n \<le> 0 \<Longrightarrow>
   init c t n v = Inr \<lparr>cls = c, tol = t, n_iter = n, verbose = v, history = [], iter = 0\<rparr>"
  by (simp add: init_def)

theorem C3_init_keeps_nonpositive_n_iter_witness:
  "(0::int) \<le> 0 \<and> init ThresholdMonitor 0 0 True = Inr \<lparr>cls = ThresholdMonitor, tol = 0, n_iter = 0, verbose = True, history = [], iter = 0\<rparr>"
  using C3_init_keeps_nonpositive_n_iter [of 0 ThresholdMonitor 0 True]
  by simp

text \<open>
  C4 (fails on the code, by the same misspelt attribute as C1): a monitor with
  \<open>n_iter = 3\<close> should be converged after three calls of \<^verbatim>\<open>report\<close>. For
  \<^verbatim>\<open>ConvergenceMonitor(0.1, 3, True)\<close> the second and the third call raise, the count
  stays at 1 and \<^verbatim>\<open>converged\<close> is \<open>False\<close>.
\<close>

theorem C4_verbose_three_reports_not_converged:
  "init ConvergenceMonitor (1/10) 3 True = Inr \<lparr>cls = ConvergenceMonitor, tol = 1/10, n_iter = 3, verbose = True, history = [], iter = 0\<rparr>
   \<and> report 1 \<lparr>cls = ConvergenceMonitor, tol = 1/10, n_iter = 3, verbose = True, history = [], iter = 0\<rparr> = Inr ([(1, 1, None)], \<lparr>cls = ConvergenceMonitor, tol = 1/10, n_iter = 3, verbose = True, history = [1], iter = 1\<rparr>)
   \<and> report 2 \<lparr>cls = ConvergenceMonitor, tol = 1/10, n_iter = 3, verbose = True, history = [1], iter = 1\<rparr> = Inl AttributeError
   \<and> report 3 \<lparr>cls = ConvergenceMonitor, tol = 1/10, n_iter = 3, verbose = True, history = [1], iter = 1\<rparr> = Inl AttributeError
   \<and> reports [1, 2, 3] \<lparr>cls = ConvergenceMonitor, tol = 1/10, n_iter = 3, verbose = True, history = [], iter = 0\<rparr> = \<lparr>cls = ConvergenceMonitor, tol = 1/10, n_iter = 3, verbose = True, history = [1], iter = 1\<rparr>
   \<and> converged \<lparr>cls = ConvergenceMonitor, tol = 1/10, n_iter = 3, verbose = True, history = [1], iter = 1\<rparr> = Inr (PBool False)"
  by (simp add: init_def report_state_def report_def prev_logprob_def histor_def
                deque_append_def converged_def check_convergence_def
                ConvergenceMonitor_check_convergence_def)

text \<open>
  C5: the absolute-gain criterion never raises and returns the boolean
  \<open>len(history) = 2 and history[1] - history[0] < tol\<close>, with the strict comparison;
  whenever the iteration count differs from \<open>n_iter\<close>, \<^verbatim>\<open>converged\<close> returns the same.
\<close>

theorem C5_absolute_gain:
  fixes m :: monitor
  assumes "cls m = ConvergenceMonitor"
  shows "check_convergence m =
           Inr (PBool (length (history m) = 2 \<and> history m ! 1 - history m ! 0 < tol m))
       \<and> (iter m \<noteq> n_iter m \<longrightarrow>
            converged m =
              Inr (PBool (length (history m) = 2 \<and> history m ! 1 - history m ! 0 < tol m)))"
  using assms
  by (simp add: check_convergence_def ConvergenceMonitor_check_convergence_def converged_def)

theorem C5_absolute_gain_witness:
  "cls \<lparr>cls = ConvergenceMonitor, tol = 1/1000, n_iter = 100, verbose = False, history = [5, 50009/10000], iter = 2\<rparr> = ConvergenceMonitor
   \<and> iter \<lparr>cls = ConvergenceMonitor, tol = 1/1000, n_iter = 100, verbose = False, history = [5, 50009/10000], iter = 2\<rparr> \<noteq> n_iter \<lparr>cls = ConvergenceMonitor, tol = 1/1000, n_iter = 100, verbose = False, history = [5, 50009/10000], iter = 2\<rparr>
   \<and> converged \<lparr>cls = ConvergenceMonitor, tol = 1/1000, n_iter = 100, verbose = False, history = [5, 50009/10000], iter = 2\<rparr> = Inr (PBool True)
   \<and> converged \<lparr>cls = ConvergenceMonitor, tol = 1/2, n_iter = 100, verbose = False, history = [5, 6], iter = 2\<rparr> = Inr (PBool False)
   \<and> converged \<lparr>cls = ConvergenceMonitor, tol = 1/2, n_iter = 100, verbose = False, history = [5], iter = 1\<rparr> = Inr (PBool False)"
  using C5_absolute_gain [where m = "\<lparr>cls = ConvergenceMonitor, tol = 1/1000, n_iter = 100, verbose = False, history = [5, 50009/10000], iter = 2\<rparr>"]
        C5_absolute_gain [where m = "\<lparr>cls = ConvergenceMonitor, tol = 1/2, n_iter = 100, verbose = False, history = [5, 6], iter = 2\<rparr>"]
        C5_absolute_gain [where m = "\<lparr>cls = ConvergenceMonitor, tol = 1/2, n_iter = 100, verbose = False, history = [5], iter = 1\<rparr>"]
  by simp

text \<open>
  C6: the threshold criterion never raises; it returns \<open>True\<close> exactly when the history is
  not empty and its last value is at least \<open>tol\<close>, and what it returns otherwise is false
  as a condition. One value in the history is enough. Whenever the iteration count
  differs from \<open>n_iter\<close>, this is also what \<^verbatim>\<open>converged\<close> returns.
\<close>

theorem C6_absolute_threshold:
  fixes m :: monitor
  assumes "cls m = ThresholdMonitor"
  shows "(check_convergence m = Inr (PBool True)) =
           (history m \<noteq> [] \<and> tol m \<le> last (history m))
       \<and> (\<exists>r. check_convergence m = Inr r
              \<and> truthy r = (history m \<noteq> [] \<and> tol m \<le> last (history m)))
       \<and> (history m = [x] \<longrightarrow> check_convergence m = Inr (PBool (tol m \<le> x)))
       \<and> (iter m \<noteq> n_iter m \<longrightarrow> converged m = check_convergence m)"
  using assms
  by (auto simp: check_convergence_def ThresholdMonitor_check_convergence_def converged_def)

theorem C6_absolute_threshold_witness:
  "cls \<lparr>cls = ThresholdMonitor, tol = 5/2, n_iter = 10, verbose = False, history = [3], iter = 1\<rparr> = ThresholdMonitor
   \<and> history \<lparr>cls = ThresholdMonitor, tol = 5/2, n_iter = 10, verbose = False, history = [3], iter = 1\<rparr> = [3]
   \<and> iter \<lparr>cls = ThresholdMonitor, tol = 5/2, n_iter = 10, verbose = False, history = [3], iter = 1\<rparr> \<noteq> n_iter \<lparr>cls = ThresholdMonitor, tol = 5/2, n_iter = 10, verbose = False, history = [3], iter = 1\<rparr>
   \<and> converged \<lparr>cls = ThresholdMonitor, tol = 5/2, n_iter = 10, verbose = False, history = [3], iter = 1\<rparr> = Inr (PBool True)"
  using C6_absolute_threshold [where m = "\<lparr>cls = ThresholdMonitor, tol = 5/2, n_iter = 10, verbose = False, history = [3], iter = 1\<rparr>" and x = 3]
  by simp

text \<open>
  C7: from a new monitor, and again after a reset, the history holds at most two values
  after any sequence of calls of \<^verbatim>\<open>report\<close>; a call that returns on a full history
  \<open>[a, b]\<close> leaves \<open>[b, x]\<close>; \<^verbatim>\<open>_reset\<close> empties the history, sets the count to 0 and
  leaves \<open>tol\<close>, \<open>n_iter\<close>, \<open>verbose\<close> (and the class) as they are.
\<close>

theorem C7_history_bounded_and_reset:
  fixes m :: monitor
  shows "(\<exists>m0. init c t n v = Inr m0
            \<and> length (history (reports vs m0)) \<le> 2
            \<and> length (history (reports ws (reset (reports vs m0)))) \<le> 2)
       \<and> (history m = [a, b] \<and> report x m = Inr (out, m') \<longrightarrow> history m' = [b, x])
       \<and> history (reset m) = [] \<and> iter (reset m) = 0
       \<and> tol (reset m) = tol m \<and> n_iter (reset m) = n_iter m
       \<and> verbose (reset m) = verbose m \<and> cls (reset m) = cls m"
proof -
  let ?m0 = "\<lparr>cls = c, tol = t, n_iter = n, verbose = v, history = [], iter = 0\<rparr>"
  have new: "init c t n v = Inr ?m0"
    by (simp add: init_def)
  have run: "length (history (reports vs ?m0)) \<le> 2"
    by (rule reports_history_bound) simp
  have again: "length (history (reports ws (reset (reports vs ?m0)))) \<le> 2"
    by (rule reports_history_bound) (simp add: reset_def)
  have evict: "history m = [a, b] \<and> report x m = Inr (out, m') \<longrightarrow> history m' = [b, x]"
    using report_returns_state [of x m out m'] by (auto simp: deque_append_full)
  from new run again evict show ?thesis
    by (simp add: reset_def)
qed

theorem C7_history_bounded_and_reset_witness:
  "history \<lparr>cls = ConvergenceMonitor, tol = 1/10, n_iter = 10, verbose = False, history = [1, 2], iter = 2\<rparr> = [1, 2]
   \<and> report 3 \<lparr>cls = ConvergenceMonitor, tol = 1/10, n_iter = 10, verbose = False, history = [1, 2], iter = 2\<rparr> = Inr ([], \<lparr>cls = ConvergenceMonitor, tol = 1/10, n_iter = 10, verbose = False, history = [2, 3], iter = 3\<rparr>)
   \<and> history \<lparr>cls = ConvergenceMonitor, tol = 1/10, n_iter = 10, verbose = False, history = [2, 3], iter = 3\<rparr> = [2, 3]"
  using C7_history_bounded_and_reset
          [where m = "\<lparr>cls = ConvergenceMonitor, tol = 1/10, n_iter = 10, verbose = False, history = [1, 2], iter = 2\<rparr>" and a = 1 and b = 2 and x = 3 and out = "[]" and m' = "\<lparr>cls = ConvergenceMonitor, tol = 1/10, n_iter = 10, verbose = False, history = [2, 3], iter = 3\<rparr>"]
  by (simp add: report_quiet deque_append_full)

text \<open>
  C8 (fails on the code, by the same misspelt attribute as C1): the iteration count should
  be the number of calls of \<^verbatim>\<open>report\<close>. After two calls on
  \<^verbatim>\<open>ConvergenceMonitor(0.1, 10, True)\<close> it is 1, the second call having raised; on the
  monitor that differs only in \<open>verbose = False\<close> it is 2.
\<close>

theorem C8_verbose_iter_behind_calls:
  "init ConvergenceMonitor (1/10) 10 True = Inr \<lparr>cls = ConvergenceMonitor, tol = 1/10, n_iter = 10, verbose = True, history = [], iter = 0\<rparr>
   \<and> iter (reports [1, 2] \<lparr>cls = ConvergenceMonitor, tol = 1/10, n_iter = 10, verbose = True, history = [], iter = 0\<rparr>) = 1
   \<and> iter (reports [1, 2] \<lparr>cls = ConvergenceMonitor, tol = 1/10, n_iter = 10, verbose = False, history = [], iter = 0\<rparr>) = 2"
  by (simp add: init_def report_state_def report_def prev_logprob_def histor_def
                deque_append_def)

text \<open>
  C9 (fails on the code for the threshold monitor): before any report \<^verbatim>\<open>converged\<close>
  raises nothing, and it returns \<open>False\<close> for the two gain monitors, but for
  \<^verbatim>\<open>ThresholdMonitor(0.5, 5, False)\<close> it returns the empty deque, the value of
  \<^verbatim>\<open>self.history and ...\<close>, where its docstring promises \<open>False\<close>.
\<close>

theorem C9_threshold_returns_deque:
  "init ThresholdMonitor (1/2) 5 False = Inr \<lparr>cls = ThresholdMonitor, tol = 1/2, n_iter = 5, verbose = False, history = [], iter = 0\<rparr>
   \<and> converged \<lparr>cls = ThresholdMonitor, tol = 1/2, n_iter = 5, verbose = False, history = [], iter = 0\<rparr> = Inr (PDeque [])
   \<and> converged \<lparr>cls = ConvergenceMonitor, tol = 1/2, n_iter = 5, verbose = False, history = [], iter = 0\<rparr> = Inr (PBool False)
   \<and> converged \<lparr>cls = RelativeMonitor, tol = 1/2, n_iter = 5, verbose = False, history = [], iter = 0\<rparr> = Inr (PBool False)
   \<and> converged \<lparr>cls = ThresholdMonitor, tol = 1/2, n_iter = 0, verbose = False, history = [], iter = 0\<rparr> = Inr (PBool True)"
  by (simp add: init_def converged_def check_convergence_def
                ConvergenceMonitor_check_convergence_def RelativeMonitor_check_convergence_def
                ThresholdMonitor_check_convergence_def)

text \<open>
  C10 (fails on the code, by the same misspelt attribute as C1): with a criterion that is
  false, \<^verbatim>\<open>converged\<close> should be true after \<open>n_iter\<close> calls of \<^verbatim>\<open>report\<close> and false after
  one more. For \<^verbatim>\<open>ConvergenceMonitor(0.1, 1, True)\<close> the second call raises, the count
  stays at \<open>n_iter = 1\<close> and \<^verbatim>\<open>converged\<close> stays \<open>True\<close> although the criterion is false; on
  the monitor that differs only in \<open>verbose = False\<close> it goes back to \<open>False\<close>.
\<close>

theorem C10_verbose_stays_converged:
  "init ConvergenceMonitor (1/10) 1 True = Inr \<lparr>cls = ConvergenceMonitor, tol = 1/10, n_iter = 1, verbose = True, history = [], iter = 0\<rparr>
   \<and> converged (reports [1] \<lparr>cls = ConvergenceMonitor, tol = 1/10, n_iter = 1, verbose = True, history = [], iter = 0\<rparr>) = Inr (PBool True)
   \<and> report 2 (reports [1] \<lparr>cls = ConvergenceMonitor, tol = 1/10, n_iter = 1, verbose = True, history = [], iter = 0\<rparr>) = Inl AttributeError
   \<and> check_convergence (reports [1, 2] \<lparr>cls = ConvergenceMonitor, tol = 1/10, n_iter = 1, verbose = True, history = [], iter = 0\<rparr>) = Inr (PBool False)
   \<and> converged (reports [1, 2] \<lparr>cls = ConvergenceMonitor, tol = 1/10, n_iter = 1, verbose = True, history = [], iter = 0\<rparr>) = Inr (PBool True)
   \<and> converged (reports [1] \<lparr>cls = ConvergenceMonitor, tol = 1/10, n_iter = 1, verbose = False, history = [], iter = 0\<rparr>) = Inr (PBool True)
   \<and> converged (reports [1, 2] \<lparr>cls = ConvergenceMonitor, tol = 1/10, n_iter = 1, verbose = False, history = [], iter = 0\<rparr>) = Inr (PBool False)"
  by (simp add: init_def report_state_def report_def prev_logprob_def histor_def
                deque_append_def converged_def check_convergence_def
                ConvergenceMonitor_check_convergence_def)

end
